theory Spec2Isabelle
  imports Main "HOL-Library.Sublist" "HOL-Library.AList"
begin

section \<open>Values shared by the two APIs\<close>

text \<open>
  Request bodies, queue messages and submission parameters are JSON values. A Python
  dict is an association list read with \<open>map_of\<close>; \<open>d.update(e)\<close> is
  \<open>AList.merge d e\<close> (the keys of \<open>e\<close> win), \<open>d[k] = v\<close> is \<open>AList.update k v d\<close>.
  Floating point numbers are left out of the model.
\<close>

datatype json =
    JNull
  | JBool bool
  | JInt int
  | JStr string
  | JList "json list"
  | JObj "(string \<times> json) list"

type_synonym dict = "(string \<times> json) list"

text \<open>The exceptions that the modelled code can raise and does not catch.\<close>

datatype exn =
    KeyError string
  | TypeError
  | AttributeError
  | BadRequestKeyError string
  | JSONDecodeError
  | IOError
  | External string

text \<open>Python truthiness (\<open>if x\<close>, \<open>not x\<close>, \<open>x or y\<close>).\<close>

fun truthy :: "json \<Rightarrow> bool" where
  "truthy JNull = False"
| "truthy (JBool b) = b"
| "truthy (JInt i) = (i \<noteq> 0)"
| "truthy (JStr s) = (s \<noteq> [])"
| "truthy (JList xs) = (xs \<noteq> [])"
| "truthy (JObj d) = (d \<noteq> [])"

text \<open>\<open>x[k]\<close> with a string key: only a dict has one, a missing key raises KeyError.\<close>

fun subscript :: "json \<Rightarrow> string \<Rightarrow> exn + json" where
  "subscript (JObj d) k = (case map_of d k of None \<Rightarrow> Inl (KeyError k) | Some v \<Rightarrow> Inr v)"
| "subscript _ k = Inl TypeError"

text \<open>\<open>x.get(k, default)\<close>: only a dict has the method.\<close>

fun dict_get :: "json \<Rightarrow> string \<Rightarrow> json \<Rightarrow> exn + json" where
  "dict_get (JObj d) k dflt = (case map_of d k of None \<Rightarrow> Inr dflt | Some v \<Rightarrow> Inr v)"
| "dict_get _ k dflt = Inl AttributeError"

text \<open>
  \<open>make_api_response(data, err, status_code)\<close> wraps its arguments in the response
  envelope; \<open>err\<close> defaults to the empty string and \<open>status_code\<close> to 200.
\<close>

record 'a api_response =
  api_response :: 'a
  api_error_message :: string
  api_status_code :: int

definition make_api_response :: "'a \<Rightarrow> string \<Rightarrow> int \<Rightarrow> 'a api_response" where
  "make_api_response data err status_code =
     \<lparr>api_response = data, api_error_message = err, api_status_code = status_code\<rparr>"

section \<open>The live API: \<open>al_ui/api/tbd/live.py\<close>\<close>

text \<open>
  The named queues are a map from the queue's name to its messages, oldest first.
  \<open>push\<close> appends at the tail. \<open>pop\<close> takes the head; on an empty queue it returns
  Python's \<open>None\<close>. A pushed JSON null reads back as \<open>None\<close> too.
\<close>

type_synonym queues = "string \<Rightarrow> json list"

definition push :: "string \<Rightarrow> json \<Rightarrow> queues \<Rightarrow> queues" where
  "push name m qs = qs(name := qs name @ [m])"

definition pop :: "string \<Rightarrow> queues \<Rightarrow> json \<times> queues" where
  "pop name qs = (case qs name of [] \<Rightarrow> (JNull, qs) | m # ms \<Rightarrow> (m, qs(name := ms)))"

text \<open>The dict that \<open>get_message\<close> and \<open>get_messages\<close> build for one message.\<close>

record live_response =
  resp_type :: string
  err_msg :: "string option"
  status_code :: int
  msg :: json

text \<open>
  \<open>get_message(wq_id)\<close>, lines 45 to 63: one non-blocking pop, then the
  \<open>if\<close>/\<open>elif\<close> chain on \<open>msg['status']\<close>. The result carries the queues after the pop,
  also when a subscript raises.
\<close>

definition get_message :: "string \<Rightarrow> queues \<Rightarrow> (exn + live_response api_response) \<times> queues" where
  "get_message wq_id qs =
     (let (m, qs') = pop wq_id qs in
      (if m = JNull then
         Inr (make_api_response
           \<lparr>resp_type = ''timeout'', err_msg = Some ''Timeout waiting for a message.'',
            status_code = 408, msg = JNull\<rparr> [] 200)
       else case subscript m ''status'' of
         Inl e \<Rightarrow> Inl e
       | Inr s \<Rightarrow>
           if s = JStr ''STOP'' then
             Inr (make_api_response
               \<lparr>resp_type = ''stop'', err_msg = None, status_code = 200,
                msg = JStr ''All messages received, closing queue...''\<rparr> [] 200)
           else if s = JStr ''START'' then
             Inr (make_api_response
               \<lparr>resp_type = ''start'', err_msg = None, status_code = 200,
                msg = JStr ''Start listening...''\<rparr> [] 200)
           else if s = JStr ''OK'' then
             (case subscript m ''cache_key'' of
                Inl e \<Rightarrow> Inl e
              | Inr k \<Rightarrow> Inr (make_api_response
                  \<lparr>resp_type = ''cachekey'', err_msg = None, status_code = 200, msg = k\<rparr> [] 200))
           else if s = JStr ''FAIL'' then
             (case subscript m ''cache_key'' of
                Inl e \<Rightarrow> Inl e
              | Inr k \<Rightarrow> Inr (make_api_response
                  \<lparr>resp_type = ''cachekeyerr'', err_msg = None, status_code = 200, msg = k\<rparr> [] 200))
           else
             Inr (make_api_response
               \<lparr>resp_type = ''error'', err_msg = Some ''Unknown message'',
                status_code = 500, msg = m\<rparr> [] 200),
       qs'))"

text \<open>
  \<open>get_messages(wq_id)\<close>, lines 88 to 109: the \<open>while True\<close> loop pops until the queue
  answers \<open>None\<close>, appending one response per message. The source repeats the chain of
  \<open>get_message\<close> without the timeout branch; so does the model. Every turn of the loop
  that does not leave it has taken a message off the queue, which is the measure.
\<close>

function get_messages_loop ::
  "string \<Rightarrow> live_response list \<Rightarrow> queues \<Rightarrow> (exn + live_response list) \<times> queues" where
  "get_messages_loop wq_id resp_list qs =
     (let (m, qs') = pop wq_id qs in
      if m = JNull then (Inr resp_list, qs')
      else case subscript m ''status'' of
        Inl e \<Rightarrow> (Inl e, qs')
      | Inr s \<Rightarrow>
          if s = JStr ''STOP'' then
            get_messages_loop wq_id (resp_list @
              [\<lparr>resp_type = ''stop'', err_msg = None, status_code = 200,
                msg = JStr ''All messages received, closing queue...''\<rparr>]) qs'
          else if s = JStr ''START'' then
            get_messages_loop wq_id (resp_list @
              [\<lparr>resp_type = ''start'', err_msg = None, status_code = 200,
                msg = JStr ''Start listening...''\<rparr>]) qs'
          else if s = JStr ''OK'' then
            (case subscript m ''cache_key'' of
               Inl e \<Rightarrow> (Inl e, qs')
             | Inr k \<Rightarrow> get_messages_loop wq_id (resp_list @
                 [\<lparr>resp_type = ''cachekey'', err_msg = None, status_code = 200, msg = k\<rparr>]) qs')
          else if s = JStr ''FAIL'' then
            (case subscript m ''cache_key'' of
               Inl e \<Rightarrow> (Inl e, qs')
             | Inr k \<Rightarrow> get_messages_loop wq_id (resp_list @
                 [\<lparr>resp_type = ''cachekeyerr'', err_msg = None, status_code = 200, msg = k\<rparr>]) qs')
          else
            get_messages_loop wq_id (resp_list @
              [\<lparr>resp_type = ''error'', err_msg = Some ''Unknown message'',
                status_code = 500, msg = m\<rparr>]) qs')"
  by pat_completeness auto
termination
  by (relation "measure (\<lambda>(wq_id, resp_list, qs). length (qs wq_id))")
     (auto simp: pop_def split: list.splits)

declare get_messages_loop.simps [simp del]

definition get_messages :: "string \<Rightarrow> queues \<Rightarrow> (exn + live_response list api_response) \<times> queues" where
  "get_messages wq_id qs =
     (case get_messages_loop wq_id [] qs of
        (Inl e, qs') \<Rightarrow> (Inl e, qs')
      | (Inr resp_list, qs') \<Rightarrow> (Inr (make_api_response resp_list [] 200), qs'))"


text \<open>
  \<open>outstanding_services\<close> reads the datastore and the classification engine, names a
  reply queue and waits on it. These collaborators are parameters: the submission found
  for a \<open>sid\<close> (\<open>None\<close> when there is none), \<open>Classification.is_accessible\<close>,
  \<open>reply_queue_name\<close> (the prefix and the number of names drawn so far give the name), and
  what the processing engine does to the queues while the caller waits for its reply.
\<close>

record live_env =
  get_submission :: "string \<Rightarrow> json"
  is_accessible :: "json \<Rightarrow> json \<Rightarrow> bool"
  reply_queue_name :: "string \<Rightarrow> nat \<Rightarrow> string"
  engine :: "queues \<Rightarrow> queues"

record live_state =
  named_queues :: queues
  names_drawn :: nat

text \<open>
  \<open>NamedQueue(name).pop(timeout=5)\<close>: the blocking pop. Time is not modelled; the
  engine acts on the queues within the bound, then the head of the reply queue is taken,
  or \<open>None\<close> comes back when the queue is still empty.
\<close>

definition pop_timeout :: "live_env \<Rightarrow> string \<Rightarrow> nat \<Rightarrow> queues \<Rightarrow> json \<times> queues" where
  "pop_timeout env name timeout qs = pop name (engine env qs)"

text \<open>\<open>outstanding_services(sid)\<close>, lines 131 to 146.\<close>

definition outstanding_services ::
  "live_env \<Rightarrow> string \<Rightarrow> json \<Rightarrow> live_state \<Rightarrow> (exn + json api_response) \<times> live_state" where
  "outstanding_services env sid user st =
     (let data = get_submission env sid;
          denied = (Inr (make_api_response (JObj [])
                      ''You are not allowed to access this submissions.'' 403), st)
      in
      if truthy user \<and> truthy data then
        (case subscript user ''classification'' of
           Inl e \<Rightarrow> (Inl e, st)
         | Inr user_c \<Rightarrow>
            (case subscript data ''classification'' of
               Inl e \<Rightarrow> (Inl e, st)
             | Inr data_c \<Rightarrow>
                if is_accessible env user_c data_c then
                  (let state = ''oustanding_services'';
                       reply_name = reply_queue_name env state (names_drawn st);
                       qs1 = push ''control-queue''
                               (JObj [(''sid'', JStr sid), (''state'', JStr state),
                                      (''watch_queue'', JStr reply_name)])
                               (named_queues st);
                       (reply, qs2) = pop_timeout env reply_name 5 qs1
                   in (Inr (make_api_response reply [] 200),
                       \<lparr>named_queues = qs2, names_drawn = Suc (names_drawn st)\<rparr>))
                else denied))
      else denied)"

section \<open>The ingest API: \<open>assemblyline_ui/api/v4/ingest.py\<close>\<close>

subsection \<open>Python and library functions the endpoint calls\<close>

type_synonym path = string
type_synonym bytes = string

text \<open>\<open>needle in haystack\<close> on strings.\<close>

fun is_in :: "string \<Rightarrow> string \<Rightarrow> bool" where
  "is_in needle [] = (needle = [])"
| "is_in needle (c # cs) = (prefix needle (c # cs) \<or> is_in needle cs)"

text \<open>\<open>os.path.basename\<close> and \<open>os.path.join\<close> of two components (POSIX).\<close>

definition basename :: "path \<Rightarrow> path" where
  "basename p = rev (takeWhile (\<lambda>c. c \<noteq> CHR ''/'') (rev p))"

fun py_basename :: "json \<Rightarrow> exn + json" where
  "py_basename (JStr p) = Inr (JStr (basename p))"
| "py_basename _ = Inl TypeError"

definition path_join :: "path \<Rightarrow> path \<Rightarrow> path" where
  "path_join a b =
     (if b \<noteq> [] \<and> hd b = CHR ''/'' then b
      else if a = [] \<or> last a = CHR ''/'' then a @ b
      else a @ ''/'' @ b)"

text \<open>
  \<open>isinstance(x, int)\<close> holds of integers and of booleans. \<open>min(a, b)\<close> with an integer
  \<open>b\<close> compares numbers, raises TypeError on anything else, and returns its first
  argument unless the second is smaller.
\<close>

fun num_of :: "json \<Rightarrow> int option" where
  "num_of (JInt i) = Some i"
| "num_of (JBool b) = Some (if b then 1 else 0)"
| "num_of _ = None"

definition is_int :: "json \<Rightarrow> bool" where
  "is_int v = (num_of v \<noteq> None)"

definition py_min :: "json \<Rightarrow> int \<Rightarrow> exn + json" where
  "py_min a b = (case num_of a of None \<Rightarrow> Inl TypeError | Some x \<Rightarrow> Inr (if b < x then JInt b else a))"

subsection \<open>Configuration, collaborators, request and state\<close>

text \<open>The module constants and the fields of \<open>config\<close> that the endpoint reads.\<close>

record config =
  TEMP_SUBMIT_DIR :: path
  MAX_SIZE :: int
  allow_url_submissions :: bool
  ingest_max_priority :: int
  max_dtl :: int
  default_max_extracted :: int
  default_max_supplementary :: int

text \<open>The three exceptions of \<open>safe_download\<close> that the endpoint catches, and any other.\<close>

datatype download_failure =
    FileTooBigException
  | InvalidUrlException
  | ForbiddenLocation
  | DownloadError exn

record fileinfo =
  fi_sha256 :: string
  fi_size :: nat

record submitted_file =
  file_name :: json
  file_sha256 :: string
  file_size :: nat

record submission =
  sid :: string
  files :: "submitted_file list"
  notification :: dict
  metadata :: dict
  params :: dict

text \<open>
  The functions of other packages are parameters of the model:
  \<^item> \<open>json_loads\<close>: \<open>json.loads\<close>, \<open>None\<close> when it raises;
  \<^item> \<open>safe_str\<close>, \<open>flatten\<close>, \<open>now_as_iso\<close> (of an offset in seconds) and
    \<open>get_random_id\<close> (of the number of identifiers drawn so far);
  \<^item> \<open>load_user_params\<close>: \<open>ui_to_submission_params(load_user_settings(user))\<close>;
  \<^item> \<open>safe_download\<close>: the bytes fetched, or the exception raised together with what
    the failed download left in the output file;
  \<^item> \<open>fileinfo_sha256\<close>: the digest that \<open>identify.fileinfo\<close> computes; the size it
    reports is the length of the content;
  \<^item> \<open>decode_file\<close>: for a CaRT wrapper, the unpacked content and the metadata of its
    header, \<open>None\<close> for any other content; \<open>extracted_name\<close> is the path it writes to;
  \<^item> \<open>py_str\<close>: the text of a value inside an f-string;
  \<^item> \<open>submission_error\<close>: the message of the ValueError or KeyError that the
    \<open>Submission\<close> constructor raises, \<open>None\<close> when it accepts the record. The primitives
    of an accepted object are taken to be the fields it was built from.
\<close>

record collab =
  json_loads :: "string \<Rightarrow> json option"
  safe_str :: "string \<Rightarrow> string"
  get_random_id :: "nat \<Rightarrow> string"
  load_user_params :: "json \<Rightarrow> dict"
  safe_download :: "json \<Rightarrow> (download_failure \<times> bytes option) + bytes"
  fileinfo_sha256 :: "bytes \<Rightarrow> string"
  decode_file :: "bytes \<Rightarrow> exn + (bytes \<times> dict) option"
  extracted_name :: "path \<Rightarrow> path"
  flatten :: "dict \<Rightarrow> dict"
  now_as_iso :: "int \<Rightarrow> string"
  py_str :: "json \<Rightarrow> string"
  submission_error :: "submission \<Rightarrow> string option"

text \<open>
  What the endpoint reads of the Flask request: the content type, the form value
  \<open>json\<close>, the uploaded file \<open>bin\<close> (its filename and content) and the parsed JSON body.
\<close>

record request =
  content_type :: "string option"
  values_json :: "string option"
  files_bin :: "(string \<times> bytes) option"
  json_body :: json

text \<open>
  The state the endpoint acts on: the files and directories on disk, the
  content-addressed filestore with a log of the uploads made, the log of file records
  freshened in the datastore, the ingest queue, the log of \<open>submission_received\<close>, and
  the number of random identifiers drawn. The local variables \<open>original_file\<close> and
  \<open>extracted_path\<close> are part of it because the \<open>finally\<close> clause reads them on every
  exit.
\<close>

record ingest_state =
  fs_files :: "path \<rightharpoonup> bytes"
  fs_dirs :: "path set"
  filestore :: "string \<rightharpoonup> bytes"
  uploads :: "(path \<times> string) list"
  freshened :: "(string \<times> fileinfo \<times> string option \<times> json) list"
  ingest_queue :: "submission list"
  received :: "submission list"
  ids_drawn :: nat
  original_file :: "path option"
  extracted_path :: "path option"

subsection \<open>Early returns and exceptions\<close>

text \<open>
  A step of the endpoint either goes on with a value, or leaves the \<open>try\<close> block: by
  \<open>return make_api_response(...)\<close> or by an exception. Either way the state reached
  so far is kept for the \<open>finally\<close> clause.
\<close>

datatype abort = Return "json api_response" | Raise exn

type_synonym 'a step = "ingest_state \<Rightarrow> (abort + 'a) \<times> ingest_state"

definition and_then :: "'a step \<Rightarrow> ('a \<Rightarrow> 'b step) \<Rightarrow> 'b step" where
  "and_then m f st = (case m st of (Inl a, st') \<Rightarrow> (Inl a, st') | (Inr x, st') \<Rightarrow> f x st')"

definition pure_step :: "abort + 'a \<Rightarrow> 'a step" where
  "pure_step r st = (r, st)"

definition bind_pure :: "abort + 'a \<Rightarrow> ('a \<Rightarrow> abort + 'b) \<Rightarrow> abort + 'b" where
  "bind_pure r f = (case r of Inl a \<Rightarrow> Inl a | Inr x \<Rightarrow> f x)"

definition raising :: "exn + 'a \<Rightarrow> abort + 'a" where
  "raising r = (case r of Inl e \<Rightarrow> Inl (Raise e) | Inr x \<Rightarrow> Inr x)"

definition respond :: "json \<Rightarrow> string \<Rightarrow> int \<Rightarrow> abort + 'a" where
  "respond body err code = Inl (Return (make_api_response body err code))"

subsection \<open>The file system\<close>

text \<open>
  \<open>os.path.exists\<close>; \<open>os.makedirs\<close> inside \<open>try ... except Exception: pass\<close>;
  \<open>open(p, "wb").write(b)\<close>, which fails on the empty path and on a directory; the guarded \<open>os.unlink\<close> of
  the \<open>finally\<close> clause, whose failure is swallowed; and the guarded
  \<open>shutil.rmtree(d, ignore_errors=True)\<close>, which removes a directory with everything
  below it and does nothing to a plain file.
\<close>

definition path_exists :: "path \<Rightarrow> ingest_state \<Rightarrow> bool" where
  "path_exists p st = (fs_files st p \<noteq> None \<or> p \<in> fs_dirs st)"

definition below :: "path \<Rightarrow> path \<Rightarrow> bool" where
  "below d p = prefix (if d \<noteq> [] \<and> last d = CHR ''/'' then d else d @ ''/'') p"

definition makedirs :: "path \<Rightarrow> ingest_state \<Rightarrow> ingest_state" where
  "makedirs d st = (if path_exists d st then st else st\<lparr>fs_dirs := insert d (fs_dirs st)\<rparr>)"

definition write_file :: "path \<Rightarrow> bytes \<Rightarrow> unit step" where
  "write_file p b st =
     (if p = [] \<or> p \<in> fs_dirs st then (Inl (Raise IOError), st)
      else (Inr (), st\<lparr>fs_files := (fs_files st)(p \<mapsto> b)\<rparr>))"

definition unlink_if_exists :: "path option \<Rightarrow> ingest_state \<Rightarrow> ingest_state" where
  "unlink_if_exists v st =
     (case v of
        None \<Rightarrow> st
      | Some p \<Rightarrow>
          if p \<noteq> [] \<and> path_exists p st then st\<lparr>fs_files := (fs_files st)(p := None)\<rparr> else st)"

definition rmtree_if_exists :: "path \<Rightarrow> ingest_state \<Rightarrow> ingest_state" where
  "rmtree_if_exists d st =
     (if d \<in> fs_dirs st then
        st\<lparr>fs_files := (\<lambda>p. if below d p then None else fs_files st p),
           fs_dirs := Set.filter (\<lambda>p. p \<noteq> d \<and> \<not> below d p) (fs_dirs st)\<rparr>
      else st)"

subsection \<open>The endpoint, step by step\<close>

text \<open>
  Lines 172 to 188: the data block and the binary blob. The result is \<open>data\<close>,
  \<open>binary\<close>, \<open>name\<close>, \<open>sha256\<close> and \<open>url\<close>. A missing content type makes the \<open>in\<close> test
  raise, a missing \<open>bin\<close> part makes \<open>request.files['bin']\<close> raise, and \<open>.get\<close> raises on
  a data block that is not a dict.
\<close>

definition parse_request ::
  "collab \<Rightarrow> request \<Rightarrow> abort + (json \<times> (string \<times> bytes) option \<times> json \<times> json \<times> json)" where
  "parse_request c req =
     (case content_type req of
        None \<Rightarrow> Inl (Raise TypeError)
      | Some ct \<Rightarrow>
          if is_in ''multipart/form-data'' ct then
            bind_pure
              (case values_json req of
                 Some s \<Rightarrow>
                   (case json_loads c s of None \<Rightarrow> Inl (Raise JSONDecodeError) | Some d \<Rightarrow> Inr d)
               | None \<Rightarrow> Inr (JObj []))
              (\<lambda>data.
                 case files_bin req of
                   None \<Rightarrow> Inl (Raise (BadRequestKeyError ''bin''))
                 | Some binary \<Rightarrow>
                     bind_pure (raising (dict_get data ''name'' (JStr (fst binary))))
                       (\<lambda>name. Inr (data, Some binary, name, JNull, JNull)))
          else if is_in ''application/json'' ct then
            (let data = json_body req in
             bind_pure (raising (dict_get data ''sha256'' JNull)) (\<lambda>sha256.
             bind_pure (raising (dict_get data ''url'' JNull)) (\<lambda>url.
             bind_pure (raising (dict_get data ''name'' JNull)) (\<lambda>given.
             bind_pure
               (if truthy given then Inr given
                else if truthy sha256 then Inr sha256
                else bind_pure (raising (py_basename url))
                       (\<lambda>b. Inr (if truthy b then b else JNull)))
               (\<lambda>name. Inr (data, None, name, sha256, url))))))
          else respond (JObj []) ''Invalid content type'' 400)"

text \<open>
  Lines 190 to 210: the checks on the data block, the notification parameters, the
  alert flag and the file name. The result is \<open>notification_queue\<close>,
  \<open>notification_threshold\<close>, \<open>generate_alert\<close> and the sanitised \<open>name\<close>.
  \<open>os.path.basename\<close> raises on a name that is not a string.
\<close>

definition check_request ::
  "collab \<Rightarrow> json \<Rightarrow> json \<Rightarrow> abort + (json \<times> json \<times> bool \<times> string)" where
  "check_request c data name =
     (if \<not> truthy data then respond (JObj []) ''Missing data block'' 400
      else
        bind_pure (raising (dict_get data ''notification_queue'' JNull)) (\<lambda>notification_queue.
        bind_pure (raising (dict_get data ''notification_threshold'' JNull)) (\<lambda>notification_threshold.
        if \<not> is_int notification_threshold \<and> truthy notification_threshold then
          respond (JObj []) ''notification_threshold should be and int'' 400
        else
          bind_pure (raising (dict_get data ''generate_alert'' (JBool False))) (\<lambda>generate_alert.
          case generate_alert of
            JBool alert \<Rightarrow>
              if \<not> truthy name then respond (JObj []) ''Filename missing'' 400
              else
                bind_pure (raising (py_basename name)) (\<lambda>base.
                case base of
                  JStr b \<Rightarrow>
                    if safe_str c b = [] then respond (JObj []) ''Invalid filename'' 400
                    else Inr (notification_queue, notification_threshold, alert, safe_str c b)
                | _ \<Rightarrow> Inl (Raise TypeError))
          | _ \<Rightarrow> respond (JObj []) ''generate_alert should be a boolean'' 400))))"

text \<open>
  Lines 212 to 216: the temporary directory and the path of the file in it, which is
  both \<open>original_file\<close> and \<open>out_file\<close>.
\<close>

definition make_out_file :: "path \<Rightarrow> string \<Rightarrow> path step" where
  "make_out_file out_dir name st =
     (let st1 = makedirs out_dir st;
          out_file = path_join out_dir name
      in (Inr out_file, st1\<lparr>original_file := Some out_file\<rparr>))"

text \<open>
  Lines 218 to 244: the bytes of the file are put at \<open>out_file\<close>, from the upload, from
  the filestore or from the URL; the result is \<open>extra_meta\<close>.
  \<^item> \<open>if not binary\<close>: there is no upload, or the uploaded file has an empty filename
    (a file object of the framework is falsy then).
  \<^item> Lines 222 to 225: \<open>f_transport.exists\<close> and \<open>f_transport.download\<close>. A \<open>sha256\<close> that
    is not a string is taken to make the filestore raise.
  \<^item> Lines 228 to 239: \<open>safe_download\<close> writes the output file itself; when it raises
    it may have written a part of it.
\<close>

definition uploaded :: "(string \<times> bytes) option \<Rightarrow> bytes option" where
  "uploaded binary =
     (case binary of
        Some (filename, content) \<Rightarrow> if filename = [] then None else Some content
      | None \<Rightarrow> None)"

definition filestore_get :: "json \<Rightarrow> bytes step" where
  "filestore_get sha256 st =
     (case sha256 of
        JStr h \<Rightarrow>
          (case filestore st h of
             Some stored \<Rightarrow> (Inr stored, st)
           | None \<Rightarrow> (respond (JObj []) ''SHA256 does not exist in our datastore'' 404, st))
      | _ \<Rightarrow> (Inl (Raise TypeError), st))"

definition download_from_url :: "collab \<Rightarrow> config \<Rightarrow> json \<Rightarrow> path \<Rightarrow> dict step" where
  "download_from_url c cfg url out_file =
     (if \<not> allow_url_submissions cfg then
        pure_step (respond (JObj []) ''URL submissions are disabled in this system'' 400)
      else
        (case safe_download c url of
           Inr fetched \<Rightarrow>
             and_then (write_file out_file fetched)
               (\<lambda>_. pure_step (Inr [(''submitted_url'', url)]))
         | Inl (failure, partial) \<Rightarrow>
             and_then
               (case partial of None \<Rightarrow> pure_step (Inr ()) | Some b \<Rightarrow> write_file out_file b)
               (\<lambda>_. pure_step
                  (case failure of
                     FileTooBigException \<Rightarrow>
                       respond (JObj []) ''File too big to be scanned.'' 400
                   | InvalidUrlException \<Rightarrow>
                       respond (JObj []) ''Url provided is invalid.'' 400
                   | ForbiddenLocation \<Rightarrow>
                       respond (JObj []) ''Hostname in this URL cannot be resolved.'' 400
                   | DownloadError e \<Rightarrow> Inl (Raise e)))))"

definition load_file ::
  "collab \<Rightarrow> config \<Rightarrow> (string \<times> bytes) option \<Rightarrow> json \<Rightarrow> json \<Rightarrow> path \<Rightarrow> dict step" where
  "load_file c cfg binary sha256 url out_file =
     (case uploaded binary of
        None \<Rightarrow>
          if truthy sha256 then
            and_then (filestore_get sha256) (\<lambda>stored.
            and_then (write_file out_file stored) (\<lambda>_. pure_step (Inr [])))
          else if truthy url then download_from_url c cfg url out_file
          else
            pure_step
              (respond (JObj []) ''Missing file to scan. No binary, sha256 or url provided.'' 400)
      | Some content \<Rightarrow> and_then (write_file out_file content) (\<lambda>_. pure_step (Inr [])))"

text \<open>
  Lines 246 to 277: the submission parameters. The user's defaults are loaded, the six
  safe values are written over them, then the \<open>params\<close> of the data block are written
  over the result, and last the final parameters and the bound on the time to live.
  A \<open>params\<close> block that is not a JSON object raises in the model (Python also takes a
  sequence of pairs there, which the association list with string keys does not cover).
\<close>

definition safe_values :: dict where
  "safe_values =
     [(''deep_scan'', JBool False),
      (''priority'', JInt 150),
      (''ignore_cache'', JBool False),
      (''ignore_dynamic_recursion_prevention'', JBool False),
      (''ignore_filtering'', JBool False),
      (''type'', JStr ''INGEST'')]"

definition enforce_max_dtl :: "config \<Rightarrow> dict \<Rightarrow> abort + dict" where
  "enforce_max_dtl cfg s_params =
     (if max_dtl cfg > 0 then
        (case map_of s_params ''ttl'' of
           None \<Rightarrow> Inl (Raise (KeyError ''ttl''))
         | Some ttl \<Rightarrow>
             if truthy ttl then
               bind_pure (raising (py_min ttl (max_dtl cfg)))
                 (\<lambda>t. Inr (AList.update ''ttl'' t s_params))
             else Inr (AList.update ''ttl'' (JInt (max_dtl cfg)) s_params))
      else Inr s_params)"

definition build_params :: "collab \<Rightarrow> config \<Rightarrow> json \<Rightarrow> json \<Rightarrow> bool \<Rightarrow> abort + dict" where
  "build_params c cfg user data generate_alert =
     (let s1 = AList.merge (load_user_params c user) safe_values in
      bind_pure (raising (dict_get data ''params'' (JObj []))) (\<lambda>provided.
      case provided of
        JObj p \<Rightarrow>
          (let s2 = AList.merge s1 p in
           bind_pure
             (if map_of s2 ''groups'' = None then
                bind_pure (raising (subscript user ''groups''))
                  (\<lambda>g. Inr (AList.update ''groups'' g s2))
              else Inr s2) (\<lambda>s3.
           bind_pure
             (raising (py_min (case map_of s3 ''priority'' of None \<Rightarrow> JInt 150 | Some v \<Rightarrow> v)
                         (ingest_max_priority cfg))) (\<lambda>priority.
           bind_pure (raising (subscript user ''uname'')) (\<lambda>uname.
           enforce_max_dtl cfg
             (AList.merge s3
                [(''generate_alert'', JBool generate_alert),
                 (''max_extracted'', JInt (default_max_extracted cfg)),
                 (''max_supplementary'', JInt (default_max_supplementary cfg)),
                 (''priority'', priority),
                 (''submitter'', uname)])))))
      | _ \<Rightarrow> Inl (Raise TypeError)))"

text \<open>Line 280: \<open>identify.fileinfo(out_file)\<close> reads the file.\<close>

definition identify_fileinfo :: "collab \<Rightarrow> path \<Rightarrow> fileinfo step" where
  "identify_fileinfo c out_file st =
     (case fs_files st out_file of
        None \<Rightarrow> (Inl (Raise IOError), st)
      | Some b \<Rightarrow> (Inr \<lparr>fi_sha256 = fileinfo_sha256 c b, fi_size = length b\<rparr>, st))"

text \<open>Lines 282 to 287: the size of the file against \<open>MAX_SIZE\<close>, and the empty file.\<close>

definition validate_file_size :: "collab \<Rightarrow> config \<Rightarrow> dict \<Rightarrow> fileinfo \<Rightarrow> abort + unit" where
  "validate_file_size c cfg s_params info =
     (if int (fi_size info) > MAX_SIZE cfg
         \<and> \<not> truthy (case map_of s_params ''ignore_size'' of None \<Rightarrow> JBool False | Some v \<Rightarrow> v)
      then
        respond (JStr [])
          (''File too large ('' @ py_str c (JInt (int (fi_size info))) @ '' > ''
             @ py_str c (JInt (MAX_SIZE cfg)) @ ''). Ingestion failed'') 400
      else if fi_size info = 0 then
        respond (JStr []) ''File empty. Ingestion failed'' 400
      else Inr ())"

text \<open>
  Line 290: \<open>extracted_path, fileinfo, al_meta = decode_file(out_file, fileinfo)\<close>. For
  a CaRT wrapper the decoder writes the unpacked content to a file of its own and
  returns that path, the file's info and the header's metadata; otherwise it returns no
  path, the same info and no metadata. The call is taken as one step: it raises before
  it writes, or it returns and the local \<open>extracted_path\<close> is assigned.
\<close>

definition run_decode_file ::
  "collab \<Rightarrow> path \<Rightarrow> fileinfo \<Rightarrow> (path option \<times> fileinfo \<times> dict) step" where
  "run_decode_file c out_file info st =
     (case fs_files st out_file of
        None \<Rightarrow> (Inl (Raise IOError), st)
      | Some b \<Rightarrow>
          (case decode_file c b of
             Inl e \<Rightarrow> (Inl (Raise e), st)
           | Inr None \<Rightarrow> (Inr (None, info, []), st\<lparr>extracted_path := None\<rparr>)
           | Inr (Some (unpacked, al_meta)) \<Rightarrow>
               if extracted_name c out_file = [] then (Inl (Raise IOError), st)
               else
                 (Inr (Some (extracted_name c out_file),
                       \<lparr>fi_sha256 = fileinfo_sha256 c unpacked, fi_size = length unpacked\<rparr>,
                       al_meta),
                  st\<lparr>fs_files := (fs_files st)(extracted_name c out_file \<mapsto> unpacked),
                     extracted_path := Some (extracted_name c out_file)\<rparr>)))"

text \<open>
  Lines 294 to 297: the file goes to the filestore unless its digest is already there.
\<close>

definition save_to_filestore :: "path \<Rightarrow> string \<Rightarrow> unit step" where
  "save_to_filestore out_file digest st =
     (if filestore st digest = None then
        (case fs_files st out_file of
           None \<Rightarrow> (Inl (Raise IOError), st)
         | Some b \<Rightarrow>
             (Inr (), st\<lparr>filestore := (filestore st)(digest \<mapsto> b),
                        uploads := uploads st @ [(out_file, digest)]\<rparr>))
      else (Inr (), st))"

text \<open>
  Lines 299 to 301: the expiry from the time to live, and the file record freshened in
  the datastore. A time to live that is truthy and not a number is taken to raise.
\<close>

definition freshen_file :: "collab \<Rightarrow> dict \<Rightarrow> fileinfo \<Rightarrow> unit step" where
  "freshen_file c s_params info st =
     (case (case map_of s_params ''ttl'' of
              None \<Rightarrow> Inr None
            | Some ttl \<Rightarrow>
                if truthy ttl then
                  (case num_of ttl of
                     None \<Rightarrow> Inl (Raise TypeError)
                   | Some days \<Rightarrow> Inr (Some (now_as_iso c (days * 24 * 60 * 60))))
                else Inr None) of
        Inl a \<Rightarrow> (Inl a, st)
      | Inr expiry \<Rightarrow>
          (case map_of s_params ''classification'' of
             None \<Rightarrow> (Inl (Raise (KeyError ''classification'')), st)
           | Some classification \<Rightarrow>
               (Inr (), st\<lparr>freshened := freshened st @
                            [(fi_sha256 info, info, expiry, classification)]\<rparr>)))"

text \<open>Line 313: \<open>get_random_id()\<close> draws the next identifier.\<close>

definition draw_random_id :: "collab \<Rightarrow> string step" where
  "draw_random_id c st = (Inr (get_random_id c (ids_drawn st)), st\<lparr>ids_drawn := Suc (ids_drawn st)\<rparr>)"

text \<open>
  Lines 314 to 321: the metadata of the submission, and the name, which the header of
  the wrapper may replace.
\<close>

definition build_metadata ::
  "collab \<Rightarrow> json \<Rightarrow> dict \<Rightarrow> string \<Rightarrow> string \<Rightarrow> dict \<Rightarrow> dict \<Rightarrow> abort + (dict \<times> json)" where
  "build_metadata c data s_params ingest_id name al_meta extra_meta =
     bind_pure (raising (dict_get data ''metadata'' (JObj []))) (\<lambda>given.
     case given of
       JObj m \<Rightarrow>
         bind_pure (raising (subscript (JObj s_params) ''type'')) (\<lambda>ty.
         (let m1 = AList.update ''type'' ty (AList.update ''ingest_id'' (JStr ingest_id) (flatten c m));
              name' = (case map_of al_meta ''name'' of None \<Rightarrow> JStr name | Some v \<Rightarrow> v);
              m2 = AList.merge m1 (AList.delete ''name'' al_meta);
              m3 = (if map_of m2 ''ts'' = None then AList.update ''ts'' (JStr (now_as_iso c 0)) m2
                    else m2)
          in Inr (AList.merge m3 extra_meta, name')))
     | _ \<Rightarrow> Inl (Raise AttributeError))"

text \<open>Line 324: the description, when the parameters have none.\<close>

definition set_description :: "collab \<Rightarrow> dict \<Rightarrow> json \<Rightarrow> abort + dict" where
  "set_description c s_params name =
     bind_pure (raising (subscript (JObj s_params) ''description'')) (\<lambda>description.
     if truthy description then Inr (AList.update ''description'' description s_params)
     else
       bind_pure (raising (subscript (JObj s_params) ''type'')) (\<lambda>ty.
       Inr (AList.update ''description''
              (JStr (''['' @ py_str c ty @ ''] Inspection of file: '' @ py_str c name))
              s_params)))"

text \<open>
  Lines 326 to 342: the submission object is built, pushed on the ingest queue and
  announced; the response carries the ingest identifier.
\<close>

definition send_submission :: "collab \<Rightarrow> submission \<Rightarrow> json api_response step" where
  "send_submission c submission_obj st =
     (case submission_error c submission_obj of
        Some e \<Rightarrow> (respond (JStr []) e 400, st)
      | None \<Rightarrow>
          (Inr (make_api_response (JObj [(''ingest_id'', JStr (sid submission_obj))]) [] 200),
           st\<lparr>ingest_queue := ingest_queue st @ [submission_obj],
              received := received st @ [submission_obj]\<rparr>))"

text \<open>
  What the endpoint holds when the file is on disk and its info is known (lines 172 to
  280): the values that the rest of the \<open>try\<close> block uses.
\<close>

record resolved =
  r_data :: json
  r_name :: string
  r_notification_queue :: json
  r_notification_threshold :: json
  r_s_params :: dict
  r_extra_meta :: dict
  r_out_file :: path
  r_fileinfo :: fileinfo

definition resolve_request :: "collab \<Rightarrow> config \<Rightarrow> json \<Rightarrow> request \<Rightarrow> path \<Rightarrow> resolved step" where
  "resolve_request c cfg user req out_dir =
     and_then (pure_step (parse_request c req)) (\<lambda>(data, binary, name, sha256, url).
     and_then (pure_step (check_request c data name))
       (\<lambda>(notification_queue, notification_threshold, generate_alert, name).
     and_then (make_out_file out_dir name) (\<lambda>out_file.
     and_then (load_file c cfg binary sha256 url out_file) (\<lambda>extra_meta.
     and_then (pure_step (build_params c cfg user data generate_alert)) (\<lambda>s_params.
     and_then (identify_fileinfo c out_file) (\<lambda>info.
     pure_step (Inr \<lparr>r_data = data, r_name = name,
                      r_notification_queue = notification_queue,
                      r_notification_threshold = notification_threshold,
                      r_s_params = s_params, r_extra_meta = extra_meta,
                      r_out_file = out_file, r_fileinfo = info\<rparr>)))))))"

text \<open>Lines 289 to 342: from the decoding of the wrapper to the response.\<close>

definition submit_resolved :: "collab \<Rightarrow> resolved \<Rightarrow> json api_response step" where
  "submit_resolved c r =
     and_then (run_decode_file c (r_out_file r) (r_fileinfo r)) (\<lambda>(extracted, info, al_meta).
     and_then
       (save_to_filestore
          (case extracted of None \<Rightarrow> r_out_file r | Some p \<Rightarrow> if p = [] then r_out_file r else p)
          (fi_sha256 info)) (\<lambda>_.
     and_then (freshen_file c (r_s_params r) info) (\<lambda>_.
     and_then (draw_random_id c) (\<lambda>ingest_id.
     and_then (pure_step (build_metadata c (r_data r) (r_s_params r) ingest_id (r_name r)
                            al_meta (r_extra_meta r))) (\<lambda>(meta, name).
     and_then (pure_step (set_description c (r_s_params r) name)) (\<lambda>s_params.
     send_submission c
       \<lparr>sid = ingest_id,
        files = [\<lparr>file_name = name, file_sha256 = fi_sha256 info, file_size = fi_size info\<rparr>],
        notification =
          (if truthy (r_notification_queue r) then
             [(''queue'', r_notification_queue r), (''threshold'', r_notification_threshold r)]
           else []),
        metadata = meta,
        params = s_params\<rparr>))))))"

text \<open>The \<open>try\<close> block, lines 171 to 342.\<close>

definition ingest_try :: "collab \<Rightarrow> config \<Rightarrow> json \<Rightarrow> request \<Rightarrow> path \<Rightarrow> json api_response step" where
  "ingest_try c cfg user req out_dir =
     and_then (resolve_request c cfg user req out_dir) (\<lambda>r.
     and_then (pure_step (validate_file_size c cfg (r_s_params r) (r_fileinfo r))) (\<lambda>_.
     submit_resolved c r))"

text \<open>The \<open>finally\<close> clause, lines 344 to 362.\<close>

definition ingest_finally :: "path \<Rightarrow> ingest_state \<Rightarrow> ingest_state" where
  "ingest_finally out_dir st =
     rmtree_if_exists out_dir
       (unlink_if_exists (extracted_path st) (unlink_if_exists (original_file st) st))"

text \<open>
  \<open>ingest_single_file\<close>, lines 166 to 362: the name of the temporary directory is
  drawn, the two locals are set to \<open>None\<close>, the \<open>try\<close> block runs and the \<open>finally\<close>
  clause follows on every exit. The caller sees the response or the exception.
\<close>

definition out_dir_of :: "collab \<Rightarrow> config \<Rightarrow> ingest_state \<Rightarrow> path" where
  "out_dir_of c cfg st = path_join (TEMP_SUBMIT_DIR cfg) (get_random_id c (ids_drawn st))"

definition enter_try :: "ingest_state \<Rightarrow> ingest_state" where
  "enter_try st = st\<lparr>ids_drawn := Suc (ids_drawn st), original_file := None, extracted_path := None\<rparr>"

definition ingest_single_file ::
  "collab \<Rightarrow> config \<Rightarrow> json \<Rightarrow> request \<Rightarrow> ingest_state \<Rightarrow> (exn + json api_response) \<times> ingest_state" where
  "ingest_single_file c cfg user req st =
     (let out_dir = out_dir_of c cfg st;
          (outcome, st') = ingest_try c cfg user req out_dir (enter_try st)
      in ((case outcome of
             Inl (Raise e) \<Rightarrow> Inl e
           | Inl (Return response) \<Rightarrow> Inr response
           | Inr response \<Rightarrow> Inr response),
          ingest_finally out_dir st'))"

section \<open>The specification's words for the live status protocol\<close>

text \<open>
  A StatusMessage of the data model: a mapping with a \<open>status\<close>, and with a
  \<open>cache_key\<close> when the status is OK or FAIL.
\<close>

definition status_message :: "json \<Rightarrow> bool" where
  "status_message m =
     (case m of
        JObj d \<Rightarrow>
          (case map_of d ''status'' of
             None \<Rightarrow> False
           | Some s \<Rightarrow> (s = JStr ''OK'' \<or> s = JStr ''FAIL'') \<longrightarrow> map_of d ''cache_key'' \<noteq> None)
      | _ \<Rightarrow> False)"

text \<open>
  The table of section 4.3 of the specification, written from its rows and not from the
  code: the response for no message, for the four known statuses, and for any other.
\<close>

definition status_table :: "json \<Rightarrow> live_response" where
  "status_table m =
     (let s = (case subscript m ''status'' of Inr v \<Rightarrow> v | Inl _ \<Rightarrow> JNull);
          cache_key = (case subscript m ''cache_key'' of Inr v \<Rightarrow> v | Inl _ \<Rightarrow> JNull) in
      if m = JNull then
        \<lparr>resp_type = ''timeout'', err_msg = Some ''Timeout waiting for a message.'',
         status_code = 408, msg = JNull\<rparr>
      else if s = JStr ''STOP'' then
        \<lparr>resp_type = ''stop'', err_msg = None, status_code = 200,
         msg = JStr ''All messages received, closing queue...''\<rparr>
      else if s = JStr ''START'' then
        \<lparr>resp_type = ''start'', err_msg = None, status_code = 200, msg = JStr ''Start listening...''\<rparr>
      else if s = JStr ''OK'' then
        \<lparr>resp_type = ''cachekey'', err_msg = None, status_code = 200, msg = cache_key\<rparr>
      else if s = JStr ''FAIL'' then
        \<lparr>resp_type = ''cachekeyerr'', err_msg = None, status_code = 200, msg = cache_key\<rparr>
      else
        \<lparr>resp_type = ''error'', err_msg = Some ''Unknown message'', status_code = 500, msg = m\<rparr>)"

section \<open>Properties of the live API\<close>

lemma pop_Nil: "qs name = [] \<Longrightarrow> pop name qs = (JNull, qs)"
  by (simp add: pop_def)

lemma pop_Cons: "qs name = m # ms \<Longrightarrow> pop name qs = (m, qs(name := ms))"
  by (simp add: pop_def)

lemma get_message_status_table:
  assumes "qs wq_id = m # ms" and "status_message m"
  shows "get_message wq_id qs = (Inr (make_api_response (status_table m) [] 200), qs(wq_id := ms))"
  using assms
  by (auto simp: get_message_def pop_Cons status_message_def status_table_def
           split: json.splits option.splits)

lemma get_messages_loop_status_table:
  "\<forall>m \<in> set (qs wq_id). status_message m \<Longrightarrow>
   get_messages_loop wq_id resp_list qs =
     (Inr (resp_list @ map status_table (qs wq_id)), qs(wq_id := []))"
proof (induction "qs wq_id" arbitrary: qs resp_list)
  case Nil
  then have "qs wq_id = []" by simp
  then show ?case
    by (subst get_messages_loop.simps) (auto simp: pop_Nil)
next
  case (Cons m ms)
  then have q: "qs wq_id = m # ms" by simp
  have wf: "status_message m" using Cons.prems q by simp
  have rest: "\<forall>x \<in> set ((qs(wq_id := ms)) wq_id). status_message x"
    using Cons.prems q by simp
  have ih: "\<And>rl. get_messages_loop wq_id rl (qs(wq_id := ms)) =
              (Inr (rl @ map status_table ms), qs(wq_id := []))"
    using Cons.hyps(1)[of "qs(wq_id := ms)"] rest by simp
  from wf q show ?case
    by (subst get_messages_loop.simps)
       (auto simp: pop_Cons status_message_def status_table_def ih
             split: json.splits option.splits)
qed

lemma status_table_not_timeout: "status_message m \<Longrightarrow> resp_type (status_table m) \<noteq> ''timeout''"
  by (auto simp: status_message_def status_table_def split: json.splits option.splits)

text \<open>
  C5. \<open>get_message\<close> answers by the table of section 4.3: with no message, type
  \<open>timeout\<close>, status code 408 and a null \<open>msg\<close>; for the status STOP, START, OK and FAIL
  the types \<open>stop\<close>, \<open>start\<close>, \<open>cachekey\<close> and \<open>cachekeyerr\<close> with status code 200 and the
  fixed texts or the message's \<open>cache_key\<close>; for any other status, type \<open>error\<close>, status
  code 500 and the raw message in \<open>msg\<close>. The message read is taken off the queue.
\<close>

theorem get_message_mapping:
  "(qs wq_id = [] \<longrightarrow>
      get_message wq_id qs =
        (Inr (make_api_response
           \<lparr>resp_type = ''timeout'', err_msg = Some ''Timeout waiting for a message.'',
            status_code = 408, msg = JNull\<rparr> [] 200), qs))
   \<and> (qs wq_id = JObj d # ms \<longrightarrow>
        (map_of d ''status'' = Some (JStr ''STOP'') \<longrightarrow>
           get_message wq_id qs =
             (Inr (make_api_response
                \<lparr>resp_type = ''stop'', err_msg = None, status_code = 200,
                 msg = JStr ''All messages received, closing queue...''\<rparr> [] 200),
              qs(wq_id := ms)))
      \<and> (map_of d ''status'' = Some (JStr ''START'') \<longrightarrow>
           get_message wq_id qs =
             (Inr (make_api_response
                \<lparr>resp_type = ''start'', err_msg = None, status_code = 200,
                 msg = JStr ''Start listening...''\<rparr> [] 200),
              qs(wq_id := ms)))
      \<and> (map_of d ''status'' = Some (JStr ''OK'') \<and> map_of d ''cache_key'' = Some k \<longrightarrow>
           get_message wq_id qs =
             (Inr (make_api_response
                \<lparr>resp_type = ''cachekey'', err_msg = None, status_code = 200, msg = k\<rparr> [] 200),
              qs(wq_id := ms)))
      \<and> (map_of d ''status'' = Some (JStr ''FAIL'') \<and> map_of d ''cache_key'' = Some k \<longrightarrow>
           get_message wq_id qs =
             (Inr (make_api_response
                \<lparr>resp_type = ''cachekeyerr'', err_msg = None, status_code = 200, msg = k\<rparr> [] 200),
              qs(wq_id := ms)))
      \<and> (map_of d ''status'' = Some s \<and> s \<noteq> JStr ''STOP'' \<and> s \<noteq> JStr ''START''
            \<and> s \<noteq> JStr ''OK'' \<and> s \<noteq> JStr ''FAIL'' \<longrightarrow>
           get_message wq_id qs =
             (Inr (make_api_response
                \<lparr>resp_type = ''error'', err_msg = Some ''Unknown message'',
                 status_code = 500, msg = JObj d\<rparr> [] 200),
              qs(wq_id := ms))))"
  by (auto simp: get_message_def pop_def)

text \<open>
  C6. On a queue of N status messages \<open>get_messages\<close> returns N entries in arrival
  order and leaves the queue empty; on an empty queue it returns the empty list. Each
  entry is the table's response for its message, the one \<open>get_message\<close> gives when that
  message is at the head of the queue, and none is a timeout entry. The loop is a total
  function, so the call returns.
\<close>

theorem get_messages_drains_in_order:
  assumes "\<forall>m \<in> set (qs wq_id). status_message m"
  shows "\<exists>r. get_messages wq_id qs = (Inr r, qs(wq_id := []))
           \<and> api_response r = map status_table (qs wq_id)
           \<and> length (api_response r) = length (qs wq_id)
           \<and> (qs wq_id = [] \<longrightarrow> api_response r = [])
           \<and> (\<forall>e \<in> set (api_response r). resp_type e \<noteq> ''timeout'')
           \<and> (\<forall>i < length (qs wq_id).
                 fst (get_message wq_id (qs(wq_id := drop i (qs wq_id)))) =
                   Inr (make_api_response (api_response r ! i) [] 200))"
proof -
  let ?r = "make_api_response (map status_table (qs wq_id)) [] 200"
  have run: "get_messages wq_id qs = (Inr ?r, qs(wq_id := []))"
    using get_messages_loop_status_table[of qs wq_id "[]"] assms by (simp add: get_messages_def)
  have resp: "api_response ?r = map status_table (qs wq_id)"
    by (simp add: make_api_response_def)
  have no_timeout: "\<forall>e \<in> set (api_response ?r). resp_type e \<noteq> ''timeout''"
    using assms by (auto simp: resp status_table_not_timeout)
  have one: "fst (get_message wq_id (qs(wq_id := drop i (qs wq_id)))) =
               Inr (make_api_response (api_response ?r ! i) [] 200)"
    if "i < length (qs wq_id)" for i
  proof -
    have d: "(qs(wq_id := drop i (qs wq_id))) wq_id = (qs wq_id ! i) # drop (Suc i) (qs wq_id)"
      using that by (simp add: Cons_nth_drop_Suc)
    have "status_message (qs wq_id ! i)" using assms that by simp
    with d show ?thesis
      using that get_message_status_table[of "qs(wq_id := drop i (qs wq_id))" wq_id "qs wq_id ! i"
          "drop (Suc i) (qs wq_id)"]
      by (simp add: resp)
  qed
  show ?thesis
    using run resp no_timeout one by (intro exI[of _ ?r]) (simp add: make_api_response_def)
qed

theorem get_message_mapping_witness:
  "get_message ''wq'' (\<lambda>_. []) =
     (Inr (make_api_response
        \<lparr>resp_type = ''timeout'', err_msg = Some ''Timeout waiting for a message.'',
         status_code = 408, msg = JNull\<rparr> [] 200), \<lambda>_. [])
   \<and> fst (get_message ''wq'' (\<lambda>_. [JObj [(''status'', JStr ''STOP'')]])) =
       Inr (make_api_response
         \<lparr>resp_type = ''stop'', err_msg = None, status_code = 200,
          msg = JStr ''All messages received, closing queue...''\<rparr> [] 200)
   \<and> fst (get_message ''wq'' (\<lambda>_. [JObj [(''status'', JStr ''START'')]])) =
       Inr (make_api_response
         \<lparr>resp_type = ''start'', err_msg = None, status_code = 200,
          msg = JStr ''Start listening...''\<rparr> [] 200)
   \<and> fst (get_message ''wq''
         (\<lambda>_. [JObj [(''status'', JStr ''OK''), (''cache_key'', JStr ''k1'')]])) =
       Inr (make_api_response
         \<lparr>resp_type = ''cachekey'', err_msg = None, status_code = 200, msg = JStr ''k1''\<rparr> [] 200)
   \<and> fst (get_message ''wq''
         (\<lambda>_. [JObj [(''status'', JStr ''FAIL''), (''cache_key'', JStr ''k2'')]])) =
       Inr (make_api_response
         \<lparr>resp_type = ''cachekeyerr'', err_msg = None, status_code = 200, msg = JStr ''k2''\<rparr> [] 200)
   \<and> fst (get_message ''wq'' (\<lambda>_. [JObj [(''status'', JStr ''PAUSE'')]])) =
       Inr (make_api_response
         \<lparr>resp_type = ''error'', err_msg = Some ''Unknown message'', status_code = 500,
          msg = JObj [(''status'', JStr ''PAUSE'')]\<rparr> [] 200)"
  using get_message_mapping [of "\<lambda>_. []" "''wq''"]
    get_message_mapping [of "\<lambda>_. [JObj [(''status'', JStr ''STOP'')]]" "''wq''"
      "[(''status'', JStr ''STOP'')]" "[]"]
    get_message_mapping [of "\<lambda>_. [JObj [(''status'', JStr ''START'')]]" "''wq''"
      "[(''status'', JStr ''START'')]" "[]"]
    get_message_mapping [of "\<lambda>_. [JObj [(''status'', JStr ''OK''), (''cache_key'', JStr ''k1'')]]"
      "''wq''" "[(''status'', JStr ''OK''), (''cache_key'', JStr ''k1'')]" "[]" "JStr ''k1''"]
    get_message_mapping [of "\<lambda>_. [JObj [(''status'', JStr ''FAIL''), (''cache_key'', JStr ''k2'')]]"
      "''wq''" "[(''status'', JStr ''FAIL''), (''cache_key'', JStr ''k2'')]" "[]" "JStr ''k2''"]
    get_message_mapping [of "\<lambda>_. [JObj [(''status'', JStr ''PAUSE'')]]" "''wq''"
      "[(''status'', JStr ''PAUSE'')]" "[]" _ "JStr ''PAUSE''"]
  by simp

theorem get_messages_drains_in_order_witness:
  "status_message (JObj [(''status'', JStr ''START'')])
   \<and> status_message (JObj [(''status'', JStr ''OK''), (''cache_key'', JStr ''k1'')])
   \<and> status_message (JObj [(''status'', JStr ''STOP'')])
   \<and> (\<exists>r. get_messages ''wq''
          ((\<lambda>_. [])(''wq'' := [JObj [(''status'', JStr ''START'')],
                JObj [(''status'', JStr ''OK''), (''cache_key'', JStr ''k1'')],
                JObj [(''status'', JStr ''STOP'')]])) = (Inr r, (\<lambda>_. [])(''wq'' := []))
        \<and> api_response r =
            [\<lparr>resp_type = ''start'', err_msg = None, status_code = 200,
              msg = JStr ''Start listening...''\<rparr>,
             \<lparr>resp_type = ''cachekey'', err_msg = None, status_code = 200, msg = JStr ''k1''\<rparr>,
             \<lparr>resp_type = ''stop'', err_msg = None, status_code = 200,
              msg = JStr ''All messages received, closing queue...''\<rparr>])"
  using get_messages_drains_in_order [of
      "(\<lambda>_. [])(''wq'' := [JObj [(''status'', JStr ''START'')],
            JObj [(''status'', JStr ''OK''), (''cache_key'', JStr ''k1'')],
            JObj [(''status'', JStr ''STOP'')]])" "''wq''"]
  by (auto simp: status_message_def status_table_def)


text \<open>
  C7. For a caller with access, the request pushed on \<open>control-queue\<close> carries the
  state \<open>oustanding_services\<close>, which is not the string \<open>outstanding_services\<close> of the
  route, the function name and the specification.
\<close>

theorem outstanding_services_pushes_misspelt_state:
  "map (\<lambda>m. subscript m ''state'')
     (named_queues (snd (outstanding_services
        \<lparr>get_submission = \<lambda>_. JObj [(''classification'', JStr ''U'')],
         is_accessible = \<lambda>_ _. True,
         reply_queue_name = \<lambda>prefix n. prefix @ ''-reply'',
         engine = \<lambda>qs. qs\<rparr>
        ''sid1'' (JObj [(''uname'', JStr ''user''), (''classification'', JStr ''U'')])
        \<lparr>named_queues = \<lambda>_. [], names_drawn = 0\<rparr>)) ''control-queue'')
   = [Inr (JStr ''oustanding_services'')]
   \<and> JStr ''oustanding_services'' \<noteq> JStr ''outstanding_services''"
  by (simp add: outstanding_services_def pop_timeout_def push_def pop_def)

end
